theory Spec2Isabelle
  imports Complex_Main
begin

section \<open>The geo plugin of the SPARQL results viewer\<close>

text \<open>
  The theory embeds the later variant of the plugin (the class \<open>GeoPlugin\<close> with the
  datatype-keyed table \<open>conversions\<close>): column detection (\<open>updateColumns\<close>,
  \<open>canHandleResults\<close>), the feature-collection builder (\<open>createGeojson\<close>) and the
  draw cycle (\<open>draw\<close>, \<open>updateMap\<close> and its deferred follow-up). The earlier
  variant, which picks a column by the substring \<open>WKT\<close> in its name, is superseded and
  is not embedded.

  A method is a function from the plugin before the call to its completion and the plugin
  after it; a \<open>throw\<close> is the completion \<open>Inl\<close>. The WKT parser and the map library
  are external. The parser is a parameter: a function from a text to a geometry object, or
  to \<open>null\<close> for a text that it cannot read; it does not throw. Of the map library the
  model keeps what decides the plugin's behaviour: which features \<open>L.geoJson\<close> leaves
  out, where it throws, and that \<open>fitBounds\<close> throws on bounds that are not valid; what
  the library makes of one geometry is a parameter too.

  A JavaScript string is a \<open>string\<close>; one list element stands for one element of the
  JavaScript string (a UTF-16 code unit), which is what \<open>length\<close> and \<open>substring\<close>
  count.
\<close>

subsection \<open>Values and errors\<close>

text \<open>What a \<open>throw\<close> carries: the runtime's \<open>TypeError\<close> (a property read on
  \<open>undefined\<close>, a call of something that is no function), or an error object thrown by a
  library, with its message.\<close>

datatype js_error = TypeError | Error string

text \<open>The values a geometry slot can hold.\<close>

datatype jsval =
    JUndefined
  | JNull
  | JBool bool
  | JNum real
  | JStr string
  | JArr "jsval list"
  | JObj "(string \<times> jsval) list"

subsection \<open>The result set\<close>

text \<open>A cell of a row (a typed value): the properties \<open>value\<close>, \<open>datatype\<close> and
  \<open>xml:lang\<close> of the binding object; an absent property is \<open>None\<close>.\<close>

record cell =
  c_value :: string
  c_datatype :: "string option"
  c_lang :: "string option"

text \<open>A row is a plain object from column name to cell. It is represented by its own
  entries, in the order in which \<open>Object.keys\<close> enumerates them.\<close>

type_synonym row = "(string \<times> cell) list"

definition Object_keys :: "(string \<times> 'a) list \<Rightarrow> string list" where
  "Object_keys obj = map fst obj"

text \<open>The names every plain object inherits from \<open>Object.prototype\<close>. All of them are
  functions, except \<open>__proto__\<close>, which reads as the prototype object itself.\<close>

definition Object_prototype_names :: "string list" where
  "Object_prototype_names =
     [''constructor'', ''__defineGetter__'', ''__defineSetter__'', ''hasOwnProperty'',
      ''__lookupGetter__'', ''__lookupSetter__'', ''isPrototypeOf'', ''propertyIsEnumerable'',
      ''toString'', ''valueOf'', ''__proto__'', ''toLocaleString'']"

text \<open>A property read \<open>obj[key]\<close> on a plain object: the own property when there is one,
  else the inherited member, else \<open>undefined\<close>.\<close>

datatype 'a property = Own 'a | Inherited | Absent

definition js_get :: "(string \<times> 'a) list \<Rightarrow> string \<Rightarrow> 'a property" where
  "js_get obj key =
     (case map_of obj key of
        Some v \<Rightarrow> Own v
      | None \<Rightarrow> if key \<in> set Object_prototype_names then Inherited else Absent)"

text \<open>The host's objects, as far as the plugin reads them:
  \<open>yasr.results.json.results.bindings\<close> and \<open>yasr.resultsEl\<close>. Every level of the
  chain may be absent (\<open>null\<close> or \<open>undefined\<close>).\<close>

record sparql_results =
  bindings :: "row list option"

record sparql_json =
  json_results :: "sparql_results option"

record yasr_results =
  json :: "sparql_json option"

datatype dom_node = Map_container | Host_node string

record yasr_host =
  results :: "yasr_results option"
  resultsEl :: "dom_node list option"

subsection \<open>The conversion table\<close>

datatype converter = Conv_parseWKT | Conv_identity

definition conversions :: "(string \<times> converter) list" where
  "conversions =
     [(''http://www.opengis.net/ont/geosparql#wktLiteral'', Conv_parseWKT),
      (''http://www.openlinksw.com/schemas/virtrdf#Geometry'', Conv_parseWKT),
      (''http://www.opengis.net/ont/geosparql#geoJSONLiteral'', Conv_identity)]"

subsection \<open>The plugin's state\<close>

record descriptor =
  colName :: string
  d_datatype :: "string option"

record feature =
  properties :: row
  geometry :: jsval

record feature_collection =
  features :: "feature list"

text \<open>The map library is an external collaborator. A layer made by \<open>L.geoJson\<close> is the
  list of the features that it has drawn, each with the popup content that
  \<open>onEachFeature\<close> binds to it and with whether the drawn shape has valid bounds (a
  marker has; a line without points has not). The map records the calls of \<open>fitBounds\<close>
  (each with the layers whose bounds were taken) and of \<open>invalidateSize\<close>. The
  basemaps, the layer control and the initial view are not tracked.\<close>

record rendered_feature =
  rf_feature :: feature
  rf_popup :: string
  rf_valid :: bool

type_synonym layer = "rendered_feature list"

record leaflet_map =
  fitBounds_calls :: "layer list list"
  invalidateSize_calls :: nat

record plugin =
  yasr :: "yasr_host option"
  priority :: int
  label :: string
  geometryColumns :: "descriptor list"
  container :: "dom_node option"
  map_obj :: "leaflet_map option"
  lg :: "layer list option"
  timers :: nat

subsection \<open>Sequencing with exceptions\<close>

text \<open>\<open>xs.map(f)\<close> and \<open>xs.filter(p)\<close> with a callback that may throw: the elements
  are visited in order and the first throw ends the call.\<close>

fun map_result :: "('a \<Rightarrow> js_error + 'b) \<Rightarrow> 'a list \<Rightarrow> js_error + 'b list" where
  "map_result f [] = Inr []"
| "map_result f (x # xs) =
     (case f x of
        Inl e \<Rightarrow> Inl e
      | Inr y \<Rightarrow> (case map_result f xs of Inl e \<Rightarrow> Inl e | Inr ys \<Rightarrow> Inr (y # ys)))"

fun filter_result :: "('a \<Rightarrow> js_error + bool) \<Rightarrow> 'a list \<Rightarrow> js_error + 'a list" where
  "filter_result p [] = Inr []"
| "filter_result p (x # xs) =
     (case p x of
        Inl e \<Rightarrow> Inl e
      | Inr b \<Rightarrow> (case filter_result p xs of
                   Inl e \<Rightarrow> Inl e
                 | Inr ys \<Rightarrow> Inr (if b then x # ys else ys)))"

subsection \<open>Column detection\<close>

text \<open>\<open>this.yasr?.results?.json?.results?.bindings ?? []\<close>\<close>

definition optional_bindings :: "plugin \<Rightarrow> row list" where
  "optional_bindings s =
     (case yasr s of None \<Rightarrow> []
      | Some y \<Rightarrow> (case results y of None \<Rightarrow> []
      | Some r \<Rightarrow> (case json r of None \<Rightarrow> []
      | Some j \<Rightarrow> (case json_results j of None \<Rightarrow> []
      | Some sr \<Rightarrow> (case bindings sr of None \<Rightarrow> []
      | Some bs \<Rightarrow> bs)))))"

text \<open>\<open>row[k].datatype\<close>: a \<open>TypeError\<close> when \<open>row[k]\<close> is \<open>undefined\<close>; the
  members inherited from \<open>Object.prototype\<close> have no property \<open>datatype\<close>.\<close>

definition datatype_at :: "row \<Rightarrow> string \<Rightarrow> js_error + string option" where
  "datatype_at r k =
     (case js_get r k of
        Own c \<Rightarrow> Inr (c_datatype c)
      | Inherited \<Rightarrow> Inr None
      | Absent \<Rightarrow> Inl TypeError)"

text \<open>The filter's test \<open>dt && Object.keys(conversions).includes(dt)\<close>: the datatype is
  truthy (present and not the empty string) and is one of the table's own keys.\<close>

definition in_table :: "string option \<Rightarrow> bool" where
  "in_table d =
     (case d of
        None \<Rightarrow> False
      | Some dt \<Rightarrow> dt \<noteq> [] \<and> dt \<in> set (Object_keys conversions))"

definition detect :: "row list \<Rightarrow> js_error + descriptor list" where
  "detect bs =
     (let firstColumn = (case bs of [] \<Rightarrow> [] | r # _ \<Rightarrow> r)
      in case filter_result
                (\<lambda>k. case datatype_at firstColumn k of
                        Inl e \<Rightarrow> Inl e
                      | Inr d \<Rightarrow> Inr (in_table d))
                (Object_keys firstColumn) of
           Inl e \<Rightarrow> Inl e
         | Inr ks \<Rightarrow>
             map_result
               (\<lambda>k. case datatype_at firstColumn k of
                       Inl e \<Rightarrow> Inl e
                     | Inr d \<Rightarrow> Inr \<lparr>colName = k, d_datatype = d\<rparr>)
               ks)"

text \<open>A method of the plugin returns its completion (a thrown error or the returned
  value) and the plugin after it.\<close>

definition updateColumns :: "plugin \<Rightarrow> (js_error + unit) \<times> plugin" where
  "updateColumns s =
     (case detect (optional_bindings s) of
        Inl e \<Rightarrow> (Inl e, s)
      | Inr ds \<Rightarrow> (Inr (), s\<lparr>geometryColumns := ds\<rparr>))"

definition canHandleResults :: "plugin \<Rightarrow> (js_error + bool) \<times> plugin" where
  "canHandleResults s =
     (case updateColumns s of
        (Inl e, s') \<Rightarrow> (Inl e, s')
      | (Inr _, s') \<Rightarrow> (Inr (0 < length (geometryColumns s')), s'))"

text \<open>The constructor: it stores the host, sets priority and label, and runs the
  detection once.\<close>

definition GeoPlugin :: "yasr_host option \<Rightarrow> (js_error + unit) \<times> plugin" where
  "GeoPlugin y =
     updateColumns
       \<lparr>yasr = y, priority = 30, label = ''Geo'', geometryColumns = [],
        container = None, map_obj = None, lg = None, timers = 0\<rparr>"

subsection \<open>The feature-collection builder\<close>

text \<open>What the plugin calls and this repository does not define:
  \<^item> the well-known-text parser of the library \<open>wellknown\<close>, which returns a geometry
    object, or \<open>null\<close> for a text that it cannot read, and does not throw;
  \<^item> the functions that the table inherits from \<open>Object.prototype\<close> (called with the
    table as receiver; the first argument is the member's name, the second the argument
    of the call), which return a value or throw;
  \<^item> the map library's \<open>geometryToLayer\<close>, which turns the geometry of a feature
    into a shape or throws (\<open>Invalid GeoJSON object.\<close> for what is no geometry
    object, \<open>Invalid LatLng object\<close> for a point without coordinates); the result says
    whether the shape has valid bounds.\<close>

record externals =
  parseWKT :: "string \<Rightarrow> jsval"
  inherited_call :: "string \<Rightarrow> string \<Rightarrow> js_error + jsval"
  geometryToLayer :: "jsval \<Rightarrow> js_error + bool"

definition empty_point :: jsval where
  "empty_point = JObj [(''type'', JStr ''Point''), (''coordinates'', JArr [])]"

definition apply_converter :: "externals \<Rightarrow> converter \<Rightarrow> string \<Rightarrow> js_error + jsval" where
  "apply_converter ext f v =
     (case f of
        Conv_parseWKT \<Rightarrow> Inr (parseWKT ext v)
      | Conv_identity \<Rightarrow> Inr (JStr v))"

text \<open>The geometry of a cell:
  \<open>conversions[dt] ? conversions[dt](value) : { type: 'Point', coordinates: [] }\<close>.
  An absent datatype reads the key \<open>undefined\<close>, which the table does not have. An
  inherited member is truthy, so it is called; \<open>__proto__\<close> is an object and no function,
  and calling it throws.\<close>

definition cell_geometry :: "externals \<Rightarrow> cell \<Rightarrow> js_error + jsval" where
  "cell_geometry ext c =
     (case c_datatype c of
        None \<Rightarrow> Inr empty_point
      | Some dt \<Rightarrow>
          (case js_get conversions dt of
             Own f \<Rightarrow> apply_converter ext f (c_value c)
           | Inherited \<Rightarrow>
               if dt = ''__proto__'' then Inl TypeError
               else inherited_call ext dt (c_value c)
           | Absent \<Rightarrow> Inr empty_point))"

text \<open>The geometry of a row: \<open>item[column].datatype\<close> throws when the row has no such
  column; a column name that hits a member of \<open>Object.prototype\<close> reads a datatype
  \<open>undefined\<close>.\<close>

definition row_geometry :: "externals \<Rightarrow> string \<Rightarrow> row \<Rightarrow> js_error + jsval" where
  "row_geometry ext column item =
     (case js_get item column of
        Own c \<Rightarrow> cell_geometry ext c
      | Inherited \<Rightarrow> Inr empty_point
      | Absent \<Rightarrow> Inl TypeError)"

definition createGeojson ::
    "externals \<Rightarrow> row list \<Rightarrow> string \<Rightarrow> js_error + feature_collection" where
  "createGeojson ext bs column =
     (case map_result
             (\<lambda>item. case row_geometry ext column item of
                        Inl e \<Rightarrow> Inl e
                      | Inr g \<Rightarrow> Inr \<lparr>properties = item, geometry = g\<rparr>)
             bs of
        Inl e \<Rightarrow> Inl e
      | Inr fs \<Rightarrow> Inr \<lparr>features = fs\<rparr>)"

subsection \<open>Popups\<close>

text \<open>\<open>s.substring(a, b)\<close> for indices that are natural numbers.\<close>

definition substring :: "string \<Rightarrow> nat \<Rightarrow> nat \<Rightarrow> string" where
  "substring s a b =
     (let a' = min a (length s); b' = min b (length s);
          lo = min a' b'; hi = max a' b'
      in take (hi - lo) (drop lo s))"

fun join :: "string \<Rightarrow> string list \<Rightarrow> string" where
  "join sep [] = []"
| "join sep [x] = x"
| "join sep (x # y # ys) = x @ sep @ join sep (y # ys)"

text \<open>One line of the popup, for the key \<open>k\<close> of the properties \<open>p\<close>. Reading
  \<open>p[k].value.length\<close> throws when \<open>p[k]\<close> has no \<open>value\<close>.\<close>

definition popup_line :: "row \<Rightarrow> string \<Rightarrow> js_error + string" where
  "popup_line p k =
     (case js_get p k of
        Own c \<Rightarrow>
          Inr (''<b>'' @ k @ '':</b> '' @
               (if 120 < length (c_value c)
                then substring (c_value c) 0 120 @ ''...''
                else c_value c))
      | Inherited \<Rightarrow> Inl TypeError
      | Absent \<Rightarrow> Inl TypeError)"

definition onEachFeature :: "feature \<Rightarrow> js_error + string" where
  "onEachFeature f =
     (let p = properties f
      in case map_result (popup_line p) (Object_keys p) of
           Inl e \<Rightarrow> Inl e
         | Inr popupContent \<Rightarrow> Inr (join ''<br>'' popupContent))"

text \<open>Whether a value counts as true in a condition. The parser's \<open>null\<close> and the empty
  string do not.\<close>

fun truthy :: "jsval \<Rightarrow> bool" where
  "truthy JUndefined = False"
| "truthy JNull = False"
| "truthy (JBool b) = b"
| "truthy (JNum n) = (n \<noteq> 0)"
| "truthy (JStr s) = (s \<noteq> [])"
| "truthy (JArr xs) = True"
| "truthy (JObj members) = True"

text \<open>\<open>L.geoJson(geojson, {pointToLayer, onEachFeature})\<close>. The library goes through
  the features in order. It leaves out a feature whose geometry is not truthy. For any
  other it makes the shape with \<open>geometryToLayer\<close>, which may throw, then calls
  \<open>onEachFeature\<close> on the feature and adds the shape. A throw ends the call, and no
  layer is made.\<close>

fun addData :: "externals \<Rightarrow> feature list \<Rightarrow> js_error + layer" where
  "addData ext [] = Inr []"
| "addData ext (f # fs) =
     (if truthy (geometry f) then
        (case geometryToLayer ext (geometry f) of
           Inl e \<Rightarrow> Inl e
         | Inr v \<Rightarrow>
             (case onEachFeature f of
                Inl e \<Rightarrow> Inl e
              | Inr popup \<Rightarrow>
                  (case addData ext fs of
                     Inl e \<Rightarrow> Inl e
                   | Inr shapes \<Rightarrow> Inr (\<lparr>rf_feature = f, rf_popup = popup, rf_valid = v\<rparr> # shapes))))
      else addData ext fs)"

definition L_geoJson :: "externals \<Rightarrow> feature_collection \<Rightarrow> js_error + layer" where
  "L_geoJson ext geojson = addData ext (features geojson)"

subsection \<open>The draw cycle\<close>

text \<open>The bounds of the layer group are valid when one of its shapes has valid bounds.\<close>

definition bounds_valid :: "layer list \<Rightarrow> bool" where
  "bounds_valid layers = list_ex (list_ex rf_valid) layers"

text \<open>\<open>this.map.fitBounds(this.lg.getBounds(), ...)\<close>: the call is made, and the
  library throws \<open>Bounds are not valid.\<close> when the bounds are not.\<close>

definition fitBounds :: "plugin \<Rightarrow> (js_error + unit) \<times> plugin" where
  "fitBounds s =
     (case map_obj s of
        None \<Rightarrow> (Inl TypeError, s)
      | Some m \<Rightarrow>
          (case lg s of
             None \<Rightarrow> (Inl TypeError, s)
           | Some layers \<Rightarrow>
               (if bounds_valid layers then Inr () else Inl (Error ''Bounds are not valid.''),
                s\<lparr>map_obj := Some (m\<lparr>fitBounds_calls := fitBounds_calls m @ [layers]\<rparr>)\<rparr>)))"

text \<open>\<open>this.yasr.results.json.results.bindings\<close>, without optional access.\<close>

definition strict_bindings :: "plugin \<Rightarrow> js_error + row list option" where
  "strict_bindings s =
     (case yasr s of None \<Rightarrow> Inl TypeError
      | Some y \<Rightarrow> (case results y of None \<Rightarrow> Inl TypeError
      | Some r \<Rightarrow> (case json r of None \<Rightarrow> Inl TypeError
      | Some j \<Rightarrow> (case json_results j of None \<Rightarrow> Inl TypeError
      | Some sr \<Rightarrow> Inr (bindings sr)))))"

text \<open>One turn of the loop over \<open>this.geometryColumns\<close>.\<close>

definition render_column :: "externals \<Rightarrow> descriptor \<Rightarrow> plugin \<Rightarrow> (js_error + unit) \<times> plugin" where
  "render_column ext geometryColumn s =
     (case strict_bindings s of
        Inl e \<Rightarrow> (Inl e, s)
      | Inr None \<Rightarrow> (Inl TypeError, s)
      | Inr (Some bs) \<Rightarrow>
          (case createGeojson ext bs (colName geometryColumn) of
             Inl e \<Rightarrow> (Inl e, s)
           | Inr geojson \<Rightarrow>
               (case L_geoJson ext geojson of
                  Inl e \<Rightarrow> (Inl e, s)
                | Inr newLayers \<Rightarrow>
                    (case lg s of
                       None \<Rightarrow> (Inl TypeError, s)
                     | Some layers \<Rightarrow>
                         (let s1 = s\<lparr>lg := Some (layers @ [newLayers])\<rparr>
                          in if 0 < length (features geojson) then fitBounds s1
                             else (Inr (), s1))))))"

fun render_columns :: "externals \<Rightarrow> descriptor list \<Rightarrow> plugin \<Rightarrow> (js_error + unit) \<times> plugin" where
  "render_columns ext [] s = (Inr (), s)"
| "render_columns ext (d # ds) s =
     (case render_column ext d s of
        (Inl e, s') \<Rightarrow> (Inl e, s')
      | (Inr _, s') \<Rightarrow> render_columns ext ds s')"

text \<open>The first draw creates the container, the map and the layer group.\<close>

definition ensure_map :: "plugin \<Rightarrow> plugin" where
  "ensure_map s =
     (case container s of
        None \<Rightarrow>
          s\<lparr>container := Some Map_container,
            map_obj := Some \<lparr>fitBounds_calls = [], invalidateSize_calls = 0\<rparr>,
            lg := Some []\<rparr>
      | Some _ \<Rightarrow> s)"

text \<open>\<open>this.yasr.resultsEl.appendChild(this.container)\<close>: the node becomes the last
  child, moved there when it is a child already.\<close>

definition attach :: "plugin \<Rightarrow> (js_error + unit) \<times> plugin" where
  "attach s =
     (case yasr s of
        None \<Rightarrow> (Inl TypeError, s)
      | Some y \<Rightarrow>
          (case resultsEl y of
             None \<Rightarrow> (Inl TypeError, s)
           | Some children \<Rightarrow>
               (case container s of
                  None \<Rightarrow> (Inl TypeError, s)
                | Some c \<Rightarrow>
                    (Inr (),
                     s\<lparr>yasr := Some (y\<lparr>resultsEl := Some (filter (\<lambda>n. n \<noteq> c) children @ [c])\<rparr>)\<rparr>))))"

text \<open>\<open>this.lg.clearLayers()\<close>\<close>

definition clearLayers :: "plugin \<Rightarrow> (js_error + unit) \<times> plugin" where
  "clearLayers s =
     (case lg s of
        None \<Rightarrow> (Inl TypeError, s)
      | Some _ \<Rightarrow> (Inr (), s\<lparr>lg := Some []\<rparr>))"

text \<open>\<open>updateMap\<close> ends by scheduling its follow-up with \<open>setTimeout\<close>; \<open>timers\<close>
  counts the follow-ups that are scheduled and have not run.\<close>

definition updateMap :: "externals \<Rightarrow> plugin \<Rightarrow> (js_error + unit) \<times> plugin" where
  "updateMap ext s =
     (case attach (ensure_map s) of
        (Inl e, s1) \<Rightarrow> (Inl e, s1)
      | (Inr _, s1) \<Rightarrow>
          (case clearLayers s1 of
             (Inl e, s2) \<Rightarrow> (Inl e, s2)
           | (Inr _, s2) \<Rightarrow>
               (case render_columns ext (geometryColumns s2) s2 of
                  (Inl e, s3) \<Rightarrow> (Inl e, s3)
                | (Inr _, s3) \<Rightarrow> (Inr (), s3\<lparr>timers := timers s3 + 1\<rparr>))))"

definition draw :: "externals \<Rightarrow> plugin \<Rightarrow> (js_error + unit) \<times> plugin" where
  "draw ext s =
     (case updateColumns s of
        (Inl e, s1) \<Rightarrow> (Inl e, s1)
      | (Inr _, s1) \<Rightarrow> updateMap ext s1)"

text \<open>The follow-up that \<open>setTimeout\<close> runs: \<open>this.map.invalidateSize()\<close>, then the
  bounds-fit.\<close>

definition deferred :: "plugin \<Rightarrow> (js_error + unit) \<times> plugin" where
  "deferred s =
     (case map_obj s of
        None \<Rightarrow> (Inl TypeError, s)
      | Some m \<Rightarrow>
          fitBounds (s\<lparr>map_obj := Some (m\<lparr>invalidateSize_calls := invalidateSize_calls m + 1\<rparr>)\<rparr>))"

text \<open>The timer fires: one scheduled follow-up runs, when there is one.\<close>

definition run_timer :: "plugin \<Rightarrow> (js_error + unit) \<times> plugin" where
  "run_timer s =
     (if timers s = 0 then (Inr (), s)
      else deferred (s\<lparr>timers := timers s - 1\<rparr>))"

subsection \<open>Closed forms\<close>

text \<open>What a loop over \<open>Object.keys\<close> reads at an own key, and the popup in closed
  form; the lemmas below show that \<open>onEachFeature\<close> computes it and never throws.\<close>

definition own_datatype :: "row \<Rightarrow> string \<Rightarrow> string option" where
  "own_datatype r k = (case map_of r k of Some c \<Rightarrow> c_datatype c | None \<Rightarrow> None)"

definition own_value :: "row \<Rightarrow> string \<Rightarrow> string" where
  "own_value p k = (case map_of p k of Some c \<Rightarrow> c_value c | None \<Rightarrow> [])"

definition popup_text :: "row \<Rightarrow> string" where
  "popup_text p =
     join ''<br>''
       (map (\<lambda>k. ''<b>'' @ k @ '':</b> '' @
                 (if 120 < length (own_value p k) then take 120 (own_value p k) @ ''...''
                  else own_value p k))
          (Object_keys p))"



text \<open>The fields that the loop over the geometry columns leaves alone.\<close>

definition same_frame :: "plugin \<Rightarrow> plugin \<Rightarrow> bool" where
  "same_frame s s' \<longleftrightarrow>
     yasr s' = yasr s \<and> priority s' = priority s \<and> label s' = label s \<and>
     geometryColumns s' = geometryColumns s \<and> container s' = container s \<and>
     timers s' = timers s \<and> (map_obj s' = None \<longleftrightarrow> map_obj s = None) \<and>
     (lg s' = None \<longleftrightarrow> lg s = None)"

subsection \<open>Sample data\<close>

text \<open>A host that holds a result set, and one that has no results yet.\<close>

definition host_of :: "row list \<Rightarrow> yasr_host" where
  "host_of bs =
     \<lparr>results = Some \<lparr>json = Some \<lparr>json_results = Some \<lparr>bindings = Some bs\<rparr>\<rparr>\<rparr>,
      resultsEl = Some []\<rparr>"

definition host_without_results :: yasr_host where
  "host_without_results = \<lparr>results = None, resultsEl = Some []\<rparr>"

text \<open>The row of the spec's scenario: a place and its WKT point.\<close>

definition place_cell :: cell where
  "place_cell = \<lparr>c_value = ''Brussels'', c_datatype = None, c_lang = Some ''en''\<rparr>"

definition wkt_cell :: cell where
  "wkt_cell =
     \<lparr>c_value = ''POINT(4.35 50.85)'',
      c_datatype = Some ''http://www.opengis.net/ont/geosparql#wktLiteral'',
      c_lang = None\<rparr>"

definition wkt_row :: row where
  "wkt_row = [(''place'', place_cell), (''wktGeom'', wkt_cell)]"

definition plain_row :: row where
  "plain_row = [(''place'', place_cell)]"

text \<open>A row with a GeoJSON literal, and the geometry object that its text denotes.\<close>

definition geojson_text :: string where
  \<open>geojson_text = ''{"type":"Point","coordinates":[1,2]}''\<close>

definition geojson_cell :: cell where
  "geojson_cell =
     \<lparr>c_value = geojson_text,
      c_datatype = Some ''http://www.opengis.net/ont/geosparql#geoJSONLiteral'',
      c_lang = None\<rparr>"

definition geojson_row :: row where
  "geojson_row = [(''place'', place_cell), (''geom'', geojson_cell)]"

definition parsed_point :: jsval where
  "parsed_point = JObj [(''type'', JStr ''Point''), (''coordinates'', JArr [JNum 1, JNum 2])]"

text \<open>A cell whose datatype is a URI outside the table.\<close>

definition string_cell :: cell where
  "string_cell =
     \<lparr>c_value = ''POINT(4.35 50.85)'',
      c_datatype = Some ''http://www.w3.org/2001/XMLSchema#string'',
      c_lang = None\<rparr>"

text \<open>A row with a text of 121 characters beside its geometry.\<close>

definition long_cell :: cell where
  "long_cell = \<lparr>c_value = replicate 121 (CHR ''a''), c_datatype = None, c_lang = None\<rparr>"

definition long_row :: row where
  "long_row = [(''note'', long_cell), (''wktGeom'', wkt_cell)]"

text \<open>Rows whose geometry text is cut short, one with a WKT literal and one with a
  GeoJSON literal.\<close>

definition malformed_wkt_cell :: cell where
  "malformed_wkt_cell =
     \<lparr>c_value = ''POINT(4.35'',
      c_datatype = Some ''http://www.opengis.net/ont/geosparql#wktLiteral'',
      c_lang = None\<rparr>"

definition malformed_wkt_row :: row where
  "malformed_wkt_row = [(''place'', place_cell), (''wktGeom'', malformed_wkt_cell)]"



text \<open>A row of the same column whose cell has a datatype outside the table, and a row
  without the column (the variable is unbound there).\<close>

definition fallback_row :: row where
  "fallback_row = [(''place'', place_cell), (''wktGeom'', string_cell)]"

text \<open>Stand-ins for what is external, on the values of these samples: the parser reads
  the sample point and returns \<open>null\<close> for every other text; the map library draws the
  sample point as a marker, throws \<open>Invalid LatLng object\<close> on the point without
  coordinates, and throws \<open>Invalid GeoJSON object.\<close> on anything else.\<close>

definition sample_point :: jsval where
  "sample_point = JObj [(''type'', JStr ''Point''), (''coordinates'', JArr [JNum 4.35, JNum 50.85])]"

definition sample_externals :: externals where
  "sample_externals =
     \<lparr>parseWKT = (\<lambda>text. if text = ''POINT(4.35 50.85)'' then sample_point else JNull),
      inherited_call = (\<lambda>name arg. Inr (JStr ''[object Object]'')),
      geometryToLayer =
        (\<lambda>g. if g = sample_point then Inr True
             else if g = empty_point
               then Inl (Error ''Invalid LatLng object: (undefined, undefined)'')
             else Inl (Error ''Invalid GeoJSON object.''))\<rparr>"

text \<open>Plugins, each constructed on its host: one before the host had results and the same
  one after the first results arrived, and one for each of the sample result sets.\<close>

definition plugin_before_results :: plugin where
  "plugin_before_results = snd (GeoPlugin (Some host_without_results))"

definition plugin_after_results :: plugin where
  "plugin_after_results = plugin_before_results\<lparr>yasr := Some (host_of [wkt_row])\<rparr>"

definition wkt_plugin :: plugin where
  "wkt_plugin = snd (GeoPlugin (Some (host_of [wkt_row])))"

definition zero_rows_plugin :: plugin where
  "zero_rows_plugin = snd (GeoPlugin (Some (host_of [])))"

definition long_plugin :: plugin where
  "long_plugin = snd (GeoPlugin (Some (host_of [long_row])))"



definition fallback_plugin :: plugin where
  "fallback_plugin = snd (GeoPlugin (Some (host_of [wkt_row, fallback_row])))"


text \<open>The host has a results element to attach the map to.\<close>

definition attachable :: "plugin \<Rightarrow> bool" where
  "attachable s \<longleftrightarrow> (\<exists>y ch. yasr s = Some y \<and> resultsEl y = Some ch)"

text \<open>The plugin once the map exists and is attached.\<close>

definition attached :: "plugin \<Rightarrow> plugin" where
  "attached s = snd (attach (ensure_map s))"

section \<open>Properties\<close>

subsection \<open>Exceptions that do not occur\<close>

lemma map_result_Inr:
  "(\<And>x. x \<in> set xs \<Longrightarrow> f x = Inr (g x)) \<Longrightarrow> map_result f xs = Inr (map g xs)"
  by (induction xs) auto

lemma filter_result_Inr:
  "(\<And>x. x \<in> set xs \<Longrightarrow> p x = Inr (q x)) \<Longrightarrow> filter_result p xs = Inr (filter q xs)"
  by (induction xs) auto

lemma js_get_own_key:
  assumes "k \<in> set (Object_keys r)"
  shows "\<exists>c. map_of r k = Some c \<and> js_get r k = Own c"
proof -
  from assms have "map_of r k \<noteq> None"
    by (simp add: Object_keys_def map_of_eq_None_iff)
  then show ?thesis
    by (auto simp: js_get_def)
qed

lemma datatype_at_own_key:
  "k \<in> set (Object_keys r) \<Longrightarrow> datatype_at r k = Inr (own_datatype r k)"
  using js_get_own_key[of k r] by (auto simp: datatype_at_def own_datatype_def)

lemma detect_eq:
  "detect bs =
     (let r = (case bs of [] \<Rightarrow> [] | r # _ \<Rightarrow> r)
      in Inr (map (\<lambda>k. \<lparr>colName = k, d_datatype = own_datatype r k\<rparr>)
                (filter (\<lambda>k. in_table (own_datatype r k)) (Object_keys r))))"
proof -
  define r where "r = (case bs of [] \<Rightarrow> [] | r # _ \<Rightarrow> r)"
  have f: "filter_result (\<lambda>k. case datatype_at r k of Inl e \<Rightarrow> Inl e | Inr d \<Rightarrow> Inr (in_table d)) (Object_keys r)
        = Inr (filter (\<lambda>k. in_table (own_datatype r k)) (Object_keys r))"
    by (rule filter_result_Inr) (simp add: datatype_at_own_key)
  have m: "map_result (\<lambda>k. case datatype_at r k of Inl e \<Rightarrow> Inl e | Inr d \<Rightarrow> Inr \<lparr>colName = k, d_datatype = d\<rparr>)
             (filter (\<lambda>k. in_table (own_datatype r k)) (Object_keys r))
        = Inr (map (\<lambda>k. \<lparr>colName = k, d_datatype = own_datatype r k\<rparr>)
                (filter (\<lambda>k. in_table (own_datatype r k)) (Object_keys r)))"
    by (rule map_result_Inr) (simp add: datatype_at_own_key)
  show ?thesis
    unfolding detect_def Let_def r_def[symmetric] by (simp add: f m)
qed

lemma detect_Nil: "detect [] = Inr []"
  by (simp add: detect_eq Object_keys_def)

lemma in_table_iff:
  "in_table d \<longleftrightarrow>
     (\<exists>dt. d = Some dt \<and>
        dt \<in> {''http://www.opengis.net/ont/geosparql#wktLiteral'',
               ''http://www.openlinksw.com/schemas/virtrdf#Geometry'',
               ''http://www.opengis.net/ont/geosparql#geoJSONLiteral''})"
  by (cases d) (auto simp: in_table_def Object_keys_def conversions_def)

lemma updateColumns_eq:
  "\<exists>ds. detect (optional_bindings s) = Inr ds \<and> updateColumns s = (Inr (), s\<lparr>geometryColumns := ds\<rparr>)"
  by (simp add: updateColumns_def detect_eq Let_def)

lemma detect_nonempty_iff:
  "detect (r # rest) = Inr ds \<Longrightarrow>
     ds \<noteq> [] \<longleftrightarrow> (\<exists>k c. map_of r k = Some c \<and> in_table (c_datatype c))"
proof -
  assume d: "detect (r # rest) = Inr ds"
  have "ds \<noteq> [] \<longleftrightarrow> (\<exists>k \<in> set (Object_keys r). in_table (own_datatype r k))"
    using d by (auto simp: detect_eq Let_def filter_empty_conv)
  also have "\<dots> \<longleftrightarrow> (\<exists>k c. map_of r k = Some c \<and> in_table (c_datatype c))"
  proof
    assume "\<exists>k \<in> set (Object_keys r). in_table (own_datatype r k)"
    then obtain k where k: "k \<in> set (Object_keys r)" "in_table (own_datatype r k)" by blast
    from js_get_own_key[OF k(1)] obtain c where "map_of r k = Some c" by blast
    with k(2) show "\<exists>k c. map_of r k = Some c \<and> in_table (c_datatype c)"
      by (auto simp: own_datatype_def)
  next
    assume "\<exists>k c. map_of r k = Some c \<and> in_table (c_datatype c)"
    then obtain k c where kc: "map_of r k = Some c" "in_table (c_datatype c)" by blast
    then have "k \<in> set (Object_keys r)"
      using map_of_eq_None_iff[of r k] by (simp add: Object_keys_def)
    with kc show "\<exists>k \<in> set (Object_keys r). in_table (own_datatype r k)"
      by (intro bexI[of _ k]) (simp_all add: own_datatype_def)
  qed
  finally show ?thesis .
qed

subsection \<open>The capability probe\<close>

text \<open>
  Claim C1. When the host holds a result set, \<open>canHandleResults()\<close> returns, and it
  returns true exactly when the result set has a first row and that row has a column
  whose cell carries one of the three datatypes of the conversion table (the WKT literal,
  the vendor geometry literal, the GeoJSON literal). So it is true for every result set
  whose first row has such a column, and false for a result set with zero rows and for
  one whose first row has no such column.
\<close>

theorem canHandleResults_iff_first_row_recognized:
  assumes "yasr s = Some y" and "results y = Some rs" and "json rs = Some j"
    and "json_results j = Some sr" and "bindings sr = Some bs"
  shows "fst (canHandleResults s) =
           Inr (\<exists>r rest k c dt. bs = r # rest \<and> map_of r k = Some c \<and> c_datatype c = Some dt \<and>
                  dt \<in> {''http://www.opengis.net/ont/geosparql#wktLiteral'',
                         ''http://www.openlinksw.com/schemas/virtrdf#Geometry'',
                         ''http://www.opengis.net/ont/geosparql#geoJSONLiteral''})"
proof -
  have ob: "optional_bindings s = bs"
    using assms by (simp add: optional_bindings_def)
  obtain ds where ds: "detect bs = Inr ds" "updateColumns s = (Inr (), s\<lparr>geometryColumns := ds\<rparr>)"
    using updateColumns_eq[of s] ob by auto
  have res: "fst (canHandleResults s) = Inr (ds \<noteq> [])"
    using ds(2) by (simp add: canHandleResults_def)
  show ?thesis
  proof (cases bs)
    case Nil
    with ds(1) have "ds = []" by (simp add: detect_Nil)
    with Nil res show ?thesis by simp
  next
    case (Cons r rest)
    with ds(1) have "ds \<noteq> [] \<longleftrightarrow> (\<exists>k c. map_of r k = Some c \<and> in_table (c_datatype c))"
      using detect_nonempty_iff by blast
    with Cons res show ?thesis
      by (simp add: in_table_iff)
  qed
qed

theorem canHandleResults_iff_first_row_recognized_witness:
  "fst (canHandleResults (snd (GeoPlugin (Some (host_of [wkt_row, plain_row]))))) = Inr True \<and>
   fst (canHandleResults (snd (GeoPlugin (Some (host_of []))))) = Inr False \<and>
   fst (canHandleResults (snd (GeoPlugin (Some (host_of [plain_row, wkt_row]))))) = Inr False"
proof -
  have st: "yasr (snd (GeoPlugin (Some (host_of bs)))) = Some (host_of bs)" for bs
    by (simp add: GeoPlugin_def updateColumns_def detect_eq Let_def)
  have T: "fst (canHandleResults (snd (GeoPlugin (Some (host_of bs))))) =
           Inr (\<exists>r rest k c dt. bs = r # rest \<and> map_of r k = Some c \<and> c_datatype c = Some dt \<and>
                  dt \<in> {''http://www.opengis.net/ont/geosparql#wktLiteral'',
                         ''http://www.openlinksw.com/schemas/virtrdf#Geometry'',
                         ''http://www.opengis.net/ont/geosparql#geoJSONLiteral''})" for bs
    by (rule canHandleResults_iff_first_row_recognized
          [where y = "host_of bs"
             and rs = "\<lparr>json = Some \<lparr>json_results = Some \<lparr>bindings = Some bs\<rparr>\<rparr>\<rparr>"
             and j = "\<lparr>json_results = Some \<lparr>bindings = Some bs\<rparr>\<rparr>"
             and sr = "\<lparr>bindings = Some bs\<rparr>"])
       (simp_all add: st, simp_all add: host_of_def)
  have "map_of wkt_row ''wktGeom'' = Some wkt_cell \<and>
        c_datatype wkt_cell = Some ''http://www.opengis.net/ont/geosparql#wktLiteral''"
    by (simp add: wkt_row_def wkt_cell_def)
  then have 1: "fst (canHandleResults (snd (GeoPlugin (Some (host_of [wkt_row, plain_row]))))) = Inr True"
    unfolding T by (simp, intro exI[of _ "''wktGeom''"] exI[of _ wkt_cell], simp)
  have 2: "fst (canHandleResults (snd (GeoPlugin (Some (host_of []))))) = Inr False"
    unfolding T by simp
  have 3: "fst (canHandleResults (snd (GeoPlugin (Some (host_of [plain_row, wkt_row]))))) = Inr False"
    unfolding T by (auto simp: plain_row_def place_cell_def split: if_splits)
  from 1 2 3 show ?thesis by simp
qed

subsection \<open>Detection and the plugin's state\<close>

lemma canHandleResults_eq:
  "\<exists>ds. detect (optional_bindings s) = Inr ds \<and>
        canHandleResults s = (Inr (0 < length ds), s\<lparr>geometryColumns := ds\<rparr>)"
  using updateColumns_eq[of s] by (auto simp: canHandleResults_def)

lemma detect_wkt_row:
  "detect (wkt_row # rest) =
     Inr [\<lparr>colName = ''wktGeom'',
           d_datatype = Some ''http://www.opengis.net/ont/geosparql#wktLiteral''\<rparr>]"
  by (simp add: detect_eq Object_keys_def wkt_row_def wkt_cell_def place_cell_def
      own_datatype_def in_table_def conversions_def)

text \<open>
  Claim C9, as stated, fails: detection is not free of side effects. The plugin that was
  constructed before the host had results holds no descriptor; once results with a WKT
  column have arrived, \<open>canHandleResults()\<close> stores the descriptor of that column in the
  field \<open>geometryColumns\<close>, so the plugin after the call differs from the one before.
\<close>

theorem detection_side_effect_counterexample:
  "geometryColumns plugin_after_results = [] \<and>
   geometryColumns (snd (canHandleResults plugin_after_results)) =
     [\<lparr>colName = ''wktGeom'',
       d_datatype = Some ''http://www.opengis.net/ont/geosparql#wktLiteral''\<rparr>] \<and>
   snd (canHandleResults plugin_after_results) \<noteq> plugin_after_results"
proof -
  have before: "geometryColumns plugin_after_results = []"
    by (simp add: plugin_after_results_def plugin_before_results_def GeoPlugin_def
        updateColumns_def optional_bindings_def host_without_results_def detect_Nil)
  have ob: "optional_bindings plugin_after_results = [wkt_row]"
    by (simp add: plugin_after_results_def optional_bindings_def host_of_def)
  have after: "geometryColumns (snd (canHandleResults plugin_after_results)) =
     [\<lparr>colName = ''wktGeom'',
       d_datatype = Some ''http://www.opengis.net/ont/geosparql#wktLiteral''\<rparr>]"
    by (simp add: canHandleResults_def updateColumns_def ob detect_wkt_row)
  from before after have "snd (canHandleResults plugin_after_results) \<noteq> plugin_after_results"
    by auto
  with before after show ?thesis by simp
qed

text \<open>
  Claim C9, amended. Detection and the capability probe read the result set and write one
  field: \<open>updateColumns()\<close> and \<open>canHandleResults()\<close> return, and the plugin after
  the call is the plugin before it with \<open>geometryColumns\<close> replaced by the descriptors
  detected in the current result set. Every other field, and with the host object the
  source result set, is unchanged; the probe's answer is that the list is non-empty.
\<close>

theorem detection_writes_only_geometryColumns:
  "\<exists>ds. detect (optional_bindings s) = Inr ds \<and>
        updateColumns s = (Inr (), s\<lparr>geometryColumns := ds\<rparr>) \<and>
        canHandleResults s = (Inr (0 < length ds), s\<lparr>geometryColumns := ds\<rparr>) \<and>
        yasr (s\<lparr>geometryColumns := ds\<rparr>) = yasr s \<and>
        optional_bindings (s\<lparr>geometryColumns := ds\<rparr>) = optional_bindings s"
  using updateColumns_eq[of s] by (auto simp: canHandleResults_def optional_bindings_def)

subsection \<open>Detection without results\<close>

text \<open>
  Claim C10. When the host object, its results object, the JSON body, the body's
  \<open>results\<close> or the bindings list is absent, or the bindings list is empty,
  \<open>updateColumns()\<close> returns normally and leaves an empty descriptor list, and
  \<open>canHandleResults()\<close> returns false; nothing is thrown.
\<close>

theorem detection_total_without_results:
  assumes "yasr s = None \<or>
           (\<exists>y. yasr s = Some y \<and>
              (results y = None \<or>
               (\<exists>rs. results y = Some rs \<and>
                  (json rs = None \<or>
                   (\<exists>j. json rs = Some j \<and>
                      (json_results j = None \<or>
                       (\<exists>sr. json_results j = Some sr \<and>
                          (bindings sr = None \<or> bindings sr = Some []))))))))"
  shows "updateColumns s = (Inr (), s\<lparr>geometryColumns := []\<rparr>) \<and>
         canHandleResults s = (Inr False, s\<lparr>geometryColumns := []\<rparr>)"
proof -
  from assms have "optional_bindings s = []"
    by (auto simp: optional_bindings_def)
  then show ?thesis
    by (simp add: canHandleResults_def updateColumns_def detect_Nil)
qed

theorem detection_total_without_results_witness:
  "canHandleResults \<lparr>yasr = None, priority = 30, label = ''Geo'', geometryColumns = [],
      container = None, map_obj = None, lg = None, timers = 0\<rparr> =
     (Inr False, \<lparr>yasr = None, priority = 30, label = ''Geo'', geometryColumns = [],
      container = None, map_obj = None, lg = None, timers = 0\<rparr>) \<and>
   canHandleResults plugin_before_results = (Inr False, plugin_before_results) \<and>
   fst (canHandleResults (plugin_before_results\<lparr>yasr := Some (host_of [])\<rparr>)) = Inr False"
proof -
  have b: "plugin_before_results =
      \<lparr>yasr = Some host_without_results, priority = 30, label = ''Geo'', geometryColumns = [],
       container = None, map_obj = None, lg = None, timers = 0\<rparr>"
    by (simp add: plugin_before_results_def GeoPlugin_def updateColumns_def
        optional_bindings_def host_without_results_def detect_Nil)
  have 1: "canHandleResults \<lparr>yasr = None, priority = 30, label = ''Geo'', geometryColumns = [],
      container = None, map_obj = None, lg = None, timers = 0\<rparr> =
     (Inr False, \<lparr>yasr = None, priority = 30, label = ''Geo'', geometryColumns = [],
      container = None, map_obj = None, lg = None, timers = 0\<rparr>)"
    using detection_total_without_results
      [of "\<lparr>yasr = None, priority = 30, label = ''Geo'', geometryColumns = [],
            container = None, map_obj = None, lg = None, timers = 0\<rparr>"]
    by simp
  have 2: "canHandleResults plugin_before_results = (Inr False, plugin_before_results)"
    using detection_total_without_results[of plugin_before_results]
    by (simp add: b host_without_results_def)
  have 3: "fst (canHandleResults (plugin_before_results\<lparr>yasr := Some (host_of [])\<rparr>)) = Inr False"
    using detection_total_without_results[of "plugin_before_results\<lparr>yasr := Some (host_of [])\<rparr>"]
    by (simp add: host_of_def)
  from 1 2 3 show ?thesis by simp
qed

subsection \<open>The feature-collection builder\<close>


lemma map_result_Inl:
  "x \<in> set xs \<Longrightarrow> f x = Inl e \<Longrightarrow> \<exists>e'. map_result f xs = Inl e'"
  by (induction xs) (auto split: sum.splits)




lemma createGeojson_throws:
  assumes "item \<in> set bs" and "row_geometry ext column item = Inl e"
  shows "\<exists>e'. createGeojson ext bs column = Inl e'"
proof -
  have "\<exists>e'. map_result (\<lambda>item. case row_geometry ext column item of
                      Inl e \<Rightarrow> Inl e
                    | Inr g \<Rightarrow> Inr \<lparr>properties = item, geometry = g\<rparr>) bs = Inl e'"
    by (rule map_result_Inl[OF assms(1), of _ e]) (simp add: assms(2))
  then show ?thesis
    by (auto simp: createGeojson_def)
qed


lemma colon_not_inherited:
  "CHR '':'' \<in> set dt \<Longrightarrow> dt \<notin> set Object_prototype_names"
  by (auto simp: Object_prototype_names_def)

lemma cell_geometry_outside_table:
  assumes "c_datatype c = Some dt"
    and "dt \<notin> set (Object_keys conversions)" and "dt \<notin> set Object_prototype_names"
  shows "cell_geometry ext c = Inr empty_point"
proof -
  from assms(2) have "map_of conversions dt = None"
    by (simp add: Object_keys_def map_of_eq_None_iff)
  with assms(1,3) show ?thesis
    by (simp add: cell_geometry_def js_get_def)
qed


lemma cell_geometry_geojson:
  assumes "c_datatype c = Some ''http://www.opengis.net/ont/geosparql#geoJSONLiteral''"
  shows "cell_geometry ext c = Inr (JStr (c_value c))"
  using assms by (simp add: cell_geometry_def js_get_def conversions_def apply_converter_def)

text \<open>The table is a plain object, so a lookup also finds what \<open>Object.prototype\<close>
  provides: the key \<open>__proto__\<close> reads as an object, which is truthy and cannot be
  called. No such name is a URI, which has a colon after its scheme.\<close>

lemma table_lookup_finds_prototype:
  "cell_geometry ext \<lparr>c_value = v, c_datatype = Some ''__proto__'', c_lang = l\<rparr> = Inl TypeError"
  by (simp add: cell_geometry_def js_get_def conversions_def Object_prototype_names_def)

text \<open>For a cell whose datatype is a URI outside the table, and for a cell without a
  datatype, the geometry is the point without coordinates, and the builder does not
  throw.\<close>

lemma fallback_geometry:
  assumes "c_datatype c = None \<or>
         (\<exists>dt. c_datatype c = Some dt \<and> CHR '':'' \<in> set dt \<and>
            dt \<notin> {''http://www.opengis.net/ont/geosparql#wktLiteral'',
                   ''http://www.openlinksw.com/schemas/virtrdf#Geometry'',
                   ''http://www.opengis.net/ont/geosparql#geoJSONLiteral''})"
  shows "cell_geometry ext c = Inr (JObj [(''type'', JStr ''Point''), (''coordinates'', JArr [])])"
proof (cases "c_datatype c")
  case None
  then show ?thesis by (simp add: cell_geometry_def empty_point_def)
next
  case (Some dt)
  with assms have "CHR '':'' \<in> set dt" and "dt \<notin> set (Object_keys conversions)"
    by (auto simp: Object_keys_def conversions_def)
  with Some have "cell_geometry ext c = Inr empty_point"
    by (intro cell_geometry_outside_table colon_not_inherited)
  then show ?thesis by (simp add: empty_point_def)
qed



subsection \<open>Popups and layers\<close>

lemma substring_prefix: "substring s 0 n = take n s"
  by (simp add: substring_def Let_def min_def max_def)

lemma popup_line_own_key:
  assumes "k \<in> set (Object_keys p)"
  shows "popup_line p k =
           Inr (''<b>'' @ k @ '':</b> '' @
                (if 120 < length (own_value p k) then take 120 (own_value p k) @ ''...''
                 else own_value p k))"
proof -
  from js_get_own_key[OF assms] obtain c where "map_of p k = Some c" "js_get p k = Own c"
    by blast
  then show ?thesis
    by (simp add: popup_line_def own_value_def substring_prefix)
qed

lemma onEachFeature_eq: "onEachFeature f = Inr (popup_text (properties f))"
proof -
  have "map_result (popup_line (properties f)) (Object_keys (properties f)) =
          Inr (map (\<lambda>k. ''<b>'' @ k @ '':</b> '' @
                 (if 120 < length (own_value (properties f) k)
                  then take 120 (own_value (properties f) k) @ ''...''
                  else own_value (properties f) k))
          (Object_keys (properties f)))"
    by (rule map_result_Inr) (rule popup_line_own_key)
  then show ?thesis
    by (simp add: onEachFeature_def popup_text_def Let_def)
qed

lemma map_keys_entries:
  assumes "\<And>k c. (k, c) \<in> set p \<Longrightarrow> F k = G k c"
  shows "map F (map fst p) = map (\<lambda>(k, c). G k c) p"
  using assms by (induction p) auto

lemma popup_text_distinct:
  assumes "distinct (map fst p)"
  shows "popup_text p =
           join ''<br>''
             (map (\<lambda>(k, c). ''<b>'' @ k @ '':</b> '' @
                     (if 120 < length (c_value c) then take 120 (c_value c) @ ''...''
                      else c_value c)) p)"
proof -
  have ov: "own_value p k = c_value c" if "(k, c) \<in> set p" for k c
    using that assms by (simp add: own_value_def)
  show ?thesis
    unfolding popup_text_def Object_keys_def
    by (rule arg_cong[where f = "join ''<br>''"], rule map_keys_entries) (simp only: ov)
qed

lemma addData_Inr:
  assumes "addData ext fs = Inr shapes"
  shows "map rf_feature shapes = filter (\<lambda>f. truthy (geometry f)) fs \<and>
         (\<forall>rf \<in> set shapes. rf_popup rf = popup_text (properties (rf_feature rf)) \<and>
            geometryToLayer ext (geometry (rf_feature rf)) = Inr (rf_valid rf))"
  using assms
proof (induction fs arbitrary: shapes)
  case Nil
  then show ?case by simp
next
  case (Cons f fs)
  show ?case
  proof (cases "truthy (geometry f)")
    case False
    with Cons.prems have "addData ext fs = Inr shapes"
      by simp
    from Cons.IH[OF this] False show ?thesis
      by simp
  next
    case True
    with Cons.prems obtain v rest where v: "geometryToLayer ext (geometry f) = Inr v"
      and rest: "addData ext fs = Inr rest"
      and shapes: "shapes = \<lparr>rf_feature = f, rf_popup = popup_text (properties f), rf_valid = v\<rparr> # rest"
      by (auto simp: onEachFeature_eq split: sum.splits)
    from Cons.IH[OF rest] True v shapes show ?thesis
      by simp
  qed
qed


lemma addData_throws:
  assumes "f \<in> set fs" and "truthy (geometry f)" and "geometryToLayer ext (geometry f) = Inl e"
  shows "\<exists>e'. addData ext fs = Inl e'"
  using assms by (induction fs) (auto split: sum.splits)

subsection \<open>The loop over the geometry columns\<close>

lemma strict_bindings_same:
  "map_option results (yasr s') = map_option results (yasr s) \<Longrightarrow>
     strict_bindings s' = strict_bindings s"
  by (cases "yasr s"; cases "yasr s'") (auto simp: strict_bindings_def)


lemma same_frame_refl: "same_frame s s"
  by (simp add: same_frame_def)


lemma same_frame_strict_bindings: "same_frame s s' \<Longrightarrow> strict_bindings s' = strict_bindings s"
  by (simp add: same_frame_def strict_bindings_def)

lemma fitBounds_frame: "same_frame s (snd (fitBounds s)) \<and> lg (snd (fitBounds s)) = lg s"
  by (simp add: fitBounds_def same_frame_def split: option.splits)


lemma render_column_frame: "same_frame s (snd (render_column ext d s))"
proof -
  have "same_frame s (snd (fitBounds (s\<lparr>lg := Some ls\<rparr>)))" if "lg s \<noteq> None" for ls
    using fitBounds_frame[of "s\<lparr>lg := Some ls\<rparr>"] that by (simp add: same_frame_def)
  then show ?thesis
    by (auto simp: render_column_def Let_def same_frame_refl split: sum.splits option.splits)
       (simp add: same_frame_def)
qed


lemma render_column_Inr:
  assumes "render_column ext d s = (Inr (), s')" and "lg s = Some ls"
  shows "\<exists>bs g shapes. strict_bindings s = Inr (Some bs) \<and>
           createGeojson ext bs (colName d) = Inr g \<and> L_geoJson ext g = Inr shapes \<and>
           lg s' = Some (ls @ [shapes])"
proof -
  from assms(1) obtain bs where bs: "strict_bindings s = Inr (Some bs)"
    by (auto simp: render_column_def split: sum.splits option.splits)
  with assms(1) obtain g where g: "createGeojson ext bs (colName d) = Inr g"
    by (auto simp: render_column_def split: sum.splits option.splits)
  with assms(1) bs obtain shapes where sh: "L_geoJson ext g = Inr shapes"
    by (auto simp: render_column_def split: sum.splits option.splits)
  have "lg s' = Some (ls @ [shapes])"
  proof (cases "0 < length (features g)")
    case True
    with assms bs g sh have "s' = snd (fitBounds (s\<lparr>lg := Some (ls @ [shapes])\<rparr>))"
      by (simp add: render_column_def Let_def)
    with fitBounds_frame[of "s\<lparr>lg := Some (ls @ [shapes])\<rparr>"] show ?thesis
      by simp
  next
    case False
    with assms bs g sh show ?thesis
      by (auto simp: render_column_def Let_def)
  qed
  with bs g sh show ?thesis
    by (intro exI[of _ bs] exI[of _ g] exI[of _ shapes] conjI)
qed

lemma render_columns_Inr:
  assumes "render_columns ext ds s = (Inr (), s')" and "lg s = Some ls"
    and "ds \<noteq> [] \<longrightarrow> strict_bindings s = Inr (Some bs)"
  shows "\<exists>gs layers. map_result (\<lambda>d. createGeojson ext bs (colName d)) ds = Inr gs \<and>
           map_result (L_geoJson ext) gs = Inr layers \<and>
           lg s' = Some (ls @ layers)"
  using assms
proof (induction ds arbitrary: s ls)
  case Nil
  then show ?case by simp
next
  case (Cons d ds)
  obtain r s1 where rc: "render_column ext d s = (r, s1)"
    by (cases "render_column ext d s")
  with Cons.prems(1) have s1: "render_column ext d s = (Inr (), s1)"
    and rest: "render_columns ext ds s1 = (Inr (), s')"
    by (cases r; simp)+
  have sbs: "strict_bindings s = Inr (Some bs)"
    using Cons.prems(3) by simp
  from render_column_Inr[OF s1 Cons.prems(2)] sbs
  obtain g shapes where g: "createGeojson ext bs (colName d) = Inr g"
    and sh: "L_geoJson ext g = Inr shapes"
    and lg1: "lg s1 = Some (ls @ [shapes])"
    by auto
  have fr1: "same_frame s s1"
    using render_column_frame[of s ext d] s1 by simp
  have sb: "ds \<noteq> [] \<longrightarrow> strict_bindings s1 = Inr (Some bs)"
    using sbs same_frame_strict_bindings[OF fr1] by simp
  from Cons.IH[OF rest lg1 sb]
  obtain gs layers where gs: "map_result (\<lambda>d. createGeojson ext bs (colName d)) ds = Inr gs"
    and ls: "map_result (L_geoJson ext) gs = Inr layers"
    and lg2: "lg s' = Some ((ls @ [shapes]) @ layers)"
    by auto
  show ?case
    by (intro exI[of _ "g # gs"] exI[of _ "shapes # layers"] conjI)
       (use g gs sh ls lg2 in simp_all)
qed




subsection \<open>One draw\<close>

lemma ensure_map_frame:
  "container (ensure_map s) \<noteq> None \<and> yasr (ensure_map s) = yasr s \<and>
   geometryColumns (ensure_map s) = geometryColumns s \<and> timers (ensure_map s) = timers s \<and>
   priority (ensure_map s) = priority s \<and> label (ensure_map s) = label s"
  by (simp add: ensure_map_def split: option.splits)


lemma attach_fails:
  assumes "\<not> attachable s \<or> container s = None"
  shows "attach s = (Inl TypeError, s)"
  using assms by (auto simp: attach_def attachable_def split: option.splits)

lemma attach_returns:
  assumes "attachable s" and "container s \<noteq> None"
  shows "\<exists>s1. attach s = (Inr (), s1) \<and> attachable s1 \<and>
           map_option results (yasr s1) = map_option results (yasr s) \<and>
           container s1 = container s \<and> geometryColumns s1 = geometryColumns s \<and>
           lg s1 = lg s \<and> map_obj s1 = map_obj s \<and> timers s1 = timers s"
  using assms by (auto simp: attach_def attachable_def)

lemma clearLayers_fails: "lg s = None \<Longrightarrow> clearLayers s = (Inl TypeError, s)"
  by (simp add: clearLayers_def)

lemma clearLayers_returns: "lg s \<noteq> None \<Longrightarrow> clearLayers s = (Inr (), s\<lparr>lg := Some []\<rparr>)"
  by (auto simp: clearLayers_def)

lemma updateMap_not_attachable:
  assumes "\<not> attachable s"
  shows "updateMap ext s = (Inl TypeError, ensure_map s)"
proof -
  have "\<not> attachable (ensure_map s)"
    using assms ensure_map_frame[of s] by (simp add: attachable_def)
  then have "attach (ensure_map s) = (Inl TypeError, ensure_map s)"
    by (intro attach_fails) simp
  then show ?thesis
    by (simp add: updateMap_def)
qed

text \<open>A draw that gets as far as the loop: the map is attached, the layer group is
  cleared, the loop runs, and the follow-up is scheduled when the loop returns.\<close>

lemma updateMap_attachable:
  assumes "attachable s"
  shows "attachable (attached s)"
    and "map_option results (yasr (attached s)) = map_option results (yasr s)"
    and "container (attached s) \<noteq> None"
    and "geometryColumns (attached s) = geometryColumns s"
    and "lg (attached s) = lg (ensure_map s)"
    and "map_obj (attached s) = map_obj (ensure_map s)"
    and "lg (attached s) = None \<Longrightarrow> updateMap ext s = (Inl TypeError, attached s)"
    and "lg (attached s) \<noteq> None \<Longrightarrow>
           updateMap ext s =
             (case render_columns ext (geometryColumns s) ((attached s)\<lparr>lg := Some []\<rparr>) of
                (Inl e, s3) \<Rightarrow> (Inl e, s3)
              | (Inr u, s3) \<Rightarrow> (Inr (), s3\<lparr>timers := timers s3 + 1\<rparr>))"
proof -
  note E = ensure_map_frame[of s]
  have a0: "attachable (ensure_map s)"
    using assms E by (simp add: attachable_def)
  have c0: "container (ensure_map s) \<noteq> None"
    using E by simp
  from attach_returns[OF a0 c0] obtain s1
    where "attach (ensure_map s) = (Inr (), s1) \<and> attachable s1 \<and>
           map_option results (yasr s1) = map_option results (yasr (ensure_map s)) \<and>
           container s1 = container (ensure_map s) \<and>
           geometryColumns s1 = geometryColumns (ensure_map s) \<and>
           lg s1 = lg (ensure_map s) \<and> map_obj s1 = map_obj (ensure_map s) \<and>
           timers s1 = timers (ensure_map s)"
    by (elim exE)
  then have a: "attach (ensure_map s) = (Inr (), attached s)" and s1: "s1 = attached s"
    and at: "attachable s1"
    and res: "map_option results (yasr s1) = map_option results (yasr (ensure_map s))"
    and c: "container s1 = container (ensure_map s)"
    and g: "geometryColumns s1 = geometryColumns (ensure_map s)"
    and l: "lg s1 = lg (ensure_map s)" and m: "map_obj s1 = map_obj (ensure_map s)"
    by (simp_all add: attached_def)
  show "attachable (attached s)"
    using at s1 by simp
  show "map_option results (yasr (attached s)) = map_option results (yasr s)"
    using res s1 E by simp
  show "container (attached s) \<noteq> None"
    using c s1 E by simp
  show "geometryColumns (attached s) = geometryColumns s"
    using g s1 E by simp
  show "lg (attached s) = lg (ensure_map s)"
    using l s1 by simp
  show "map_obj (attached s) = map_obj (ensure_map s)"
    using m s1 by simp
  show "updateMap ext s = (Inl TypeError, attached s)" if "lg (attached s) = None"
    using a clearLayers_fails[OF that] by (simp add: updateMap_def)
  show "updateMap ext s =
             (case render_columns ext (geometryColumns s) ((attached s)\<lparr>lg := Some []\<rparr>) of
                (Inl e, s3) \<Rightarrow> (Inl e, s3)
              | (Inr u, s3) \<Rightarrow> (Inr (), s3\<lparr>timers := timers s3 + 1\<rparr>))"
    if "lg (attached s) \<noteq> None"
    using a clearLayers_returns[OF that] g s1 E
    by (simp add: updateMap_def split: prod.splits sum.splits)
qed


lemma strict_when_rows:
  "optional_bindings s \<noteq> [] \<Longrightarrow> strict_bindings s = Inr (Some (optional_bindings s))"
  by (auto simp: optional_bindings_def strict_bindings_def split: option.splits)

lemma detect_rows:
  assumes "detect bs = Inr ds" and "ds \<noteq> []"
  shows "bs \<noteq> []"
  using assms by (auto simp: detect_Nil)

lemma draw_unfold:
  "\<exists>ds. detect (optional_bindings s) = Inr ds \<and>
        draw ext s = updateMap ext (s\<lparr>geometryColumns := ds\<rparr>)"
  using updateColumns_eq[of s] by (auto simp: draw_def)

subsection \<open>The result set is only read\<close>



subsection \<open>Drawing twice\<close>


subsection \<open>A draw that returns\<close>

lemma draw_Inr:
  assumes "draw ext s = (Inr (), s1)"
  shows "\<exists>ds gs layers. detect (optional_bindings s) = Inr ds \<and>
           map_result (\<lambda>d. createGeojson ext (optional_bindings s) (colName d)) ds = Inr gs \<and>
           map_result (L_geoJson ext) gs = Inr layers \<and> lg s1 = Some layers"
proof -
  from draw_unfold[of s ext] obtain ds where ds: "detect (optional_bindings s) = Inr ds"
    and d: "draw ext s = updateMap ext (s\<lparr>geometryColumns := ds\<rparr>)"
    by auto
  let ?u = "s\<lparr>geometryColumns := ds\<rparr>"
  from assms d have u: "updateMap ext ?u = (Inr (), s1)"
    by simp
  have att: "attachable ?u"
    using u updateMap_not_attachable[of ?u ext] by auto
  note U = updateMap_attachable[OF att]
  have l: "lg (attached ?u) \<noteq> None"
    using u U(7)[of ext] by auto
  let ?c = "(attached ?u)\<lparr>lg := Some []\<rparr>"
  obtain r3 s3 where loop: "render_columns ext ds ?c = (r3, s3)"
    by (cases "render_columns ext ds ?c")
  from U(8)[OF l, of ext] u loop have r3: "render_columns ext ds ?c = (Inr (), s3)"
    and s1: "s1 = s3\<lparr>timers := timers s3 + 1\<rparr>"
    by (cases r3; simp)+
  have ob: "optional_bindings ?u = optional_bindings s"
    by (simp add: optional_bindings_def)
  have "ds \<noteq> [] \<longrightarrow> strict_bindings ?u = Inr (Some (optional_bindings s))"
    using detect_rows[OF ds] strict_when_rows[of ?u] ob by auto
  moreover have "strict_bindings ?c = strict_bindings ?u"
    using strict_bindings_same[OF U(2)] by (simp add: strict_bindings_def)
  ultimately have sb: "ds \<noteq> [] \<longrightarrow> strict_bindings ?c = Inr (Some (optional_bindings s))"
    by simp
  from render_columns_Inr[OF r3 _ sb, of "[]"]
  obtain gs layers
    where "map_result (\<lambda>d. createGeojson ext (optional_bindings s) (colName d)) ds = Inr gs \<and>
           map_result (L_geoJson ext) gs = Inr layers \<and> lg s3 = Some ([] @ layers)"
    by auto
  with ds s1 show ?thesis
    by (intro exI[of _ ds] exI[of _ gs] exI[of _ layers]) simp
qed





text \<open>The sample values, as the stand-ins treat them.\<close>

lemma sample_values:
  "truthy sample_point" "truthy empty_point" "\<not> truthy JNull"
  "geometryToLayer sample_externals sample_point = Inr True"
  "geometryToLayer sample_externals empty_point =
     Inl (Error ''Invalid LatLng object: (undefined, undefined)'')"
  "geometryToLayer sample_externals (JStr text) = Inl (Error ''Invalid GeoJSON object.'')"
  "parseWKT sample_externals ''POINT(4.35 50.85)'' = sample_point"
  "parseWKT sample_externals ''POINT(4.35'' = JNull"
  by (simp_all add: sample_externals_def sample_point_def empty_point_def)

lemma sample_geometries:
  "row_geometry sample_externals ''wktGeom'' wkt_row = Inr sample_point"
  "row_geometry sample_externals ''wktGeom'' long_row = Inr sample_point"
  "row_geometry sample_externals ''wktGeom'' malformed_wkt_row = Inr JNull"
  "row_geometry sample_externals ''wktGeom'' fallback_row = Inr empty_point"
  "row_geometry sample_externals ''wktGeom'' plain_row = Inl TypeError"
  by (simp_all add: row_geometry_def js_get_def cell_geometry_def conversions_def
      apply_converter_def sample_values wkt_row_def wkt_cell_def long_row_def
      malformed_wkt_row_def malformed_wkt_cell_def fallback_row_def string_cell_def
      plain_row_def Object_prototype_names_def)

lemma sample_popups:
  "popup_text wkt_row = ''<b>place:</b> Brussels<br><b>wktGeom:</b> POINT(4.35 50.85)''"
  by (simp add: popup_text_def own_value_def Object_keys_def wkt_row_def wkt_cell_def
      place_cell_def)

lemma sample_detect:
  "detect (wkt_row # rest) =
     Inr [\<lparr>colName = ''wktGeom'',
           d_datatype = Some ''http://www.opengis.net/ont/geosparql#wktLiteral''\<rparr>]"
  "detect (long_row # rest) =
     Inr [\<lparr>colName = ''wktGeom'',
           d_datatype = Some ''http://www.opengis.net/ont/geosparql#wktLiteral''\<rparr>]"
  "detect (malformed_wkt_row # rest) =
     Inr [\<lparr>colName = ''wktGeom'',
           d_datatype = Some ''http://www.opengis.net/ont/geosparql#wktLiteral''\<rparr>]"
  by (simp_all add: detect_eq Object_keys_def wkt_row_def wkt_cell_def place_cell_def
      long_row_def long_cell_def malformed_wkt_row_def malformed_wkt_cell_def
      own_datatype_def in_table_def conversions_def)

text \<open>The draw of a plugin that was constructed on a host with the given rows, unfolded
  up to the builder and the library.\<close>

lemmas draw_steps =
  GeoPlugin_def updateColumns_def optional_bindings_def host_of_def sample_detect
  draw_def updateMap_def ensure_map_def attach_def clearLayers_def render_column_def
  strict_bindings_def fitBounds_def bounds_valid_def createGeojson_def L_geoJson_def
  sample_geometries sample_values onEachFeature_eq




lemma draw_fallback_plugin:
  "fst (draw sample_externals fallback_plugin) =
     Inl (Error ''Invalid LatLng object: (undefined, undefined)'') \<and>
   lg (snd (draw sample_externals fallback_plugin)) = Some []"
  by (simp add: fallback_plugin_def draw_steps)

lemma draw_wkt_plugin:
  "fst (draw sample_externals wkt_plugin) = Inr () \<and>
   lg (snd (draw sample_externals wkt_plugin)) =
     Some [[\<lparr>rf_feature = \<lparr>properties = wkt_row, geometry = sample_point\<rparr>,
             rf_popup = popup_text wkt_row, rf_valid = True\<rparr>]]"
  by (simp add: wkt_plugin_def draw_steps)

lemma draw_long_plugin:
  "fst (draw sample_externals long_plugin) = Inr () \<and>
   lg (snd (draw sample_externals long_plugin)) =
     Some [[\<lparr>rf_feature = \<lparr>properties = long_row, geometry = sample_point\<rparr>,
             rf_popup = popup_text long_row, rf_valid = True\<rparr>]]"
  by (simp add: long_plugin_def draw_steps)

subsection \<open>Popups of a draw\<close>

lemma map_result_list_all2:
  "map_result f xs = Inr ys \<Longrightarrow> list_all2 (\<lambda>x y. f x = Inr y) xs ys"
proof (induction xs arbitrary: ys)
  case Nil
  then show ?case by simp
next
  case (Cons x xs)
  from Cons.prems obtain y ys' where y: "f x = Inr y" "map_result f xs = Inr ys'" "ys = y # ys'"
    by (auto split: sum.splits)
  from Cons.IH[OF y(2)] y(1,3) show ?case
    by simp
qed

lemma layers_of_collections:
  assumes "map_result (L_geoJson ext) gs = Inr layers"
  shows "list_all2 (\<lambda>layer g. map rf_feature layer = filter (\<lambda>f. truthy (geometry f)) (features g) \<and>
            (\<forall>rf \<in> set layer. rf_popup rf = popup_text (properties (rf_feature rf))))
          layers gs"
proof -
  have "list_all2 (\<lambda>g layer. L_geoJson ext g = Inr layer) gs layers"
    using map_result_list_all2[OF assms] .
  then have "list_all2 (\<lambda>g layer. map rf_feature layer = filter (\<lambda>f. truthy (geometry f)) (features g) \<and>
            (\<forall>rf \<in> set layer. rf_popup rf = popup_text (properties (rf_feature rf)))) gs layers"
    by (rule list_all2_mono) (use addData_Inr in \<open>auto simp: L_geoJson_def\<close>)
  then show ?thesis
    by (simp add: list_all2_conv_all_nth)
qed

lemma draw_popups:
  assumes "draw ext s = (Inr (), s')" and "lg s' = Some layers"
    and "layer \<in> set layers" and "rf \<in> set layer"
  shows "rf_popup rf = popup_text (properties (rf_feature rf))"
proof -
  from draw_Inr[OF assms(1)] assms(2) obtain gs where "map_result (L_geoJson ext) gs = Inr layers"
    by auto
  from layers_of_collections[OF this] assms(3) obtain g
    where "\<forall>rf \<in> set layer. rf_popup rf = popup_text (properties (rf_feature rf))"
    by (auto simp: list_all2_conv_all_nth in_set_conv_nth)
  with assms(4) show ?thesis
    by simp
qed

text \<open>
  Claim C4. In every popup that a draw binds, each property of the feature has its line
  \<open><b>key:</b> value\<close>, the lines joined by \<open><br>\<close>; a value of more than 120
  characters is shown as its first 120 characters followed by \<open>...\<close>, and a value of
  120 characters or fewer is shown as it is. (The properties are the row, an object, whose
  keys are distinct.)
\<close>

theorem popup_truncates_long_values:
  assumes "draw ext s = (Inr (), s')" and "lg s' = Some layers"
    and "layer \<in> set layers" and "rf \<in> set layer"
    and "distinct (map fst (properties (rf_feature rf)))"
  shows "rf_popup rf =
           join ''<br>''
             (map (\<lambda>(k, c). ''<b>'' @ k @ '':</b> '' @
                     (if 120 < length (c_value c) then take 120 (c_value c) @ ''...''
                      else c_value c))
                (properties (rf_feature rf)))"
  using draw_popups[OF assms(1-4)] popup_text_distinct[OF assms(5)] by simp

theorem popup_truncates_long_values_witness:
  "\<exists>rf. lg (snd (draw sample_externals long_plugin)) = Some [[rf]] \<and>
        rf_popup rf =
          ''<b>note:</b> '' @ replicate 120 (CHR ''a'') @ ''...'' @
          ''<br><b>wktGeom:</b> POINT(4.35 50.85)''"
proof -
  let ?rf = "\<lparr>rf_feature = \<lparr>properties = long_row, geometry = sample_point\<rparr>,
              rf_popup = popup_text long_row, rf_valid = True\<rparr>"
  have d: "draw sample_externals long_plugin = (Inr (), snd (draw sample_externals long_plugin))"
    using draw_long_plugin by (cases "draw sample_externals long_plugin") simp
  have l: "lg (snd (draw sample_externals long_plugin)) = Some [[?rf]]"
    using draw_long_plugin by simp
  have k: "distinct (map fst (properties (rf_feature ?rf)))"
    by (simp add: long_row_def)
  have "rf_popup ?rf =
          ''<b>note:</b> '' @ replicate 120 (CHR ''a'') @ ''...'' @
          ''<br><b>wktGeom:</b> POINT(4.35 50.85)''"
    using popup_truncates_long_values[OF d l _ _ k]
    by (simp add: long_row_def long_cell_def wkt_cell_def)
  with l show ?thesis
    by (intro exI[of _ ?rf]) simp
qed

subsection \<open>The features of a collection\<close>




subsection \<open>The layer group after a draw\<close>


lemma sample_collections:
  "createGeojson sample_externals [wkt_row, malformed_wkt_row] ''wktGeom'' =
     Inr \<lparr>features = [\<lparr>properties = wkt_row, geometry = sample_point\<rparr>,
                      \<lparr>properties = malformed_wkt_row, geometry = JNull\<rparr>]\<rparr>"
  "createGeojson sample_externals [wkt_row, fallback_row] ''wktGeom'' =
     Inr \<lparr>features = [\<lparr>properties = wkt_row, geometry = sample_point\<rparr>,
                      \<lparr>properties = fallback_row, geometry = empty_point\<rparr>]\<rparr>"
  "createGeojson sample_externals [wkt_row] ''wktGeom'' =
     Inr \<lparr>features = [\<lparr>properties = wkt_row, geometry = sample_point\<rparr>]\<rparr>"
  by (simp_all add: createGeojson_def sample_geometries)




subsection \<open>Malformed geometry text\<close>







subsection \<open>A datatype outside the table\<close>

text \<open>
  Claim C8 holds of the normalizer and fails at the draw. For a cell whose datatype is a
  URI outside the table, the normalizer yields the point without coordinates, and
  nothing throws there. But the point is handed to the map library with the other
  features, and the library cannot draw it: for the rows \<open>[wkt_row, fallback_row]\<close>,
  whose column \<open>wktGeom\<close> is detected from the first row, the collection is built with
  the empty point for the second row, and the draw throws the library's
  \<open>Invalid LatLng object: (undefined, undefined)\<close>, with nothing in the layer group. The
  defensive value surfaces as an error and costs the well-formed row its shape.
\<close>

theorem empty_point_aborts_draw:
  "cell_geometry sample_externals string_cell =
     Inr (JObj [(''type'', JStr ''Point''), (''coordinates'', JArr [])]) \<and>
   createGeojson sample_externals [wkt_row, fallback_row] ''wktGeom'' =
     Inr \<lparr>features = [\<lparr>properties = wkt_row, geometry = sample_point\<rparr>,
                      \<lparr>properties = fallback_row,
                       geometry = JObj [(''type'', JStr ''Point''), (''coordinates'', JArr [])]\<rparr>]\<rparr> \<and>
   fst (draw sample_externals fallback_plugin) =
     Inl (Error ''Invalid LatLng object: (undefined, undefined)'') \<and>
   lg (snd (draw sample_externals fallback_plugin)) = Some []"
proof -
  have "cell_geometry sample_externals string_cell = Inr empty_point"
    by (simp add: cell_geometry_def js_get_def conversions_def string_cell_def
        Object_prototype_names_def)
  then show ?thesis
    by (simp add: sample_collections draw_fallback_plugin empty_point_def)
qed

subsection \<open>A GeoJSON literal\<close>

text \<open>
  Claim C2 asks for the parsed geometry object. The code does not produce it: the table's
  entry for the GeoJSON literal returns its argument, so for the row whose cell holds the
  text \<open>{"type":"Point","coordinates":[1,2]}\<close> the feature's geometry is that text, a
  string, and not the Point object that the text denotes.
\<close>

theorem geojson_literal_stays_text:
  "createGeojson ext [geojson_row] ''geom'' =
     Inr \<lparr>features = [\<lparr>properties = geojson_row, geometry = JStr geojson_text\<rparr>]\<rparr> \<and>
   JStr geojson_text \<noteq> parsed_point \<and>
   parsed_point = JObj [(''type'', JStr ''Point''), (''coordinates'', JArr [JNum 1, JNum 2])]"
proof -
  have "row_geometry ext ''geom'' geojson_row = Inr (JStr geojson_text)"
    by (simp add: row_geometry_def js_get_def cell_geometry_def conversions_def
        apply_converter_def geojson_row_def geojson_cell_def)
  then show ?thesis
    by (simp add: createGeojson_def parsed_point_def)
qed

subsection \<open>A result set with zero rows\<close>

lemma zero_rows_plugin_eq:
  "zero_rows_plugin =
     \<lparr>yasr = Some (host_of []), priority = 30, label = ''Geo'', geometryColumns = [],
      container = None, map_obj = None, lg = None, timers = 0\<rparr>"
  by (simp add: zero_rows_plugin_def GeoPlugin_def updateColumns_def optional_bindings_def
      host_of_def detect_Nil)

lemma draw_zero_rows_plugin:
  "draw ext zero_rows_plugin =
     (Inr (),
      \<lparr>yasr = Some ((host_of [])\<lparr>resultsEl := Some [Map_container]\<rparr>),
       priority = 30, label = ''Geo'', geometryColumns = [],
       container = Some Map_container,
       map_obj = Some \<lparr>fitBounds_calls = [], invalidateSize_calls = 0\<rparr>,
       lg = Some [], timers = 1\<rparr>)"
  by (simp add: zero_rows_plugin_eq updateColumns_def optional_bindings_def host_of_def
      detect_Nil draw_def updateMap_def ensure_map_def attach_def clearLayers_def)

text \<open>
  Claim C7 holds up to the deferred follow-up, and fails there. For the plugin on a result
  set with zero rows the probe returns false, and a draw returns with an empty Results
  layer group and without a call of \<open>fitBounds\<close>. But the draw has scheduled its
  follow-up, and when the timer fires the follow-up calls \<open>fitBounds\<close> once, on the
  bounds of the empty layer group: the call there stands under no test, though the
  comment above it reads "Fit bounds if layer has features". The map library refuses
  the bounds of an empty group, so the follow-up ends with its error
  \<open>Bounds are not valid.\<close>
\<close>

theorem zero_rows_follow_up_fits_bounds:
  "fst (canHandleResults zero_rows_plugin) = Inr False \<and>
   fst (draw ext zero_rows_plugin) = Inr () \<and>
   lg (snd (draw ext zero_rows_plugin)) = Some [] \<and>
   map_option fitBounds_calls (map_obj (snd (draw ext zero_rows_plugin))) = Some [] \<and>
   timers (snd (draw ext zero_rows_plugin)) = 1 \<and>
   fst (run_timer (snd (draw ext zero_rows_plugin))) = Inl (Error ''Bounds are not valid.'') \<and>
   map_option fitBounds_calls (map_obj (snd (run_timer (snd (draw ext zero_rows_plugin))))) =
     Some [[]]"
proof -
  have "fst (canHandleResults zero_rows_plugin) = Inr False"
    by (simp add: zero_rows_plugin_eq canHandleResults_def updateColumns_def
        optional_bindings_def host_of_def detect_Nil)
  then show ?thesis
    by (simp add: draw_zero_rows_plugin run_timer_def deferred_def fitBounds_def bounds_valid_def)
qed

end
